theory Spec2Isabelle
  imports Main "HOL-Library.Multiset"
begin

section \<open>Time, as the program uses Go's time package\<close>

text \<open>
  A \<open>time.Time\<close> is an instant, counted in nanoseconds on one time line; a
  \<open>time.Duration\<close> is a signed 64-bit count of nanoseconds. \<open>t.Sub(u)\<close>
  saturates at the smallest and the largest duration, \<open>t.Add(d)\<close> moves an
  instant, and \<open>time.Since(t)\<close> is \<open>time.Now().Sub(t)\<close>. A \<open>*time.Time\<close> is
  a \<open>time option\<close>, with \<open>None\<close> for nil.
\<close>

type_synonym time = int
type_synonym Duration = int

definition minDuration :: Duration where
  "minDuration = - (2 ^ 63)"

definition maxDuration :: Duration where
  "maxDuration = 2 ^ 63 - 1"

definition Second :: Duration where
  "Second = 1000000000"

definition Sub :: "time \<Rightarrow> time \<Rightarrow> Duration" where
  "Sub t u = (if t - u < minDuration then minDuration
              else if maxDuration < t - u then maxDuration
              else t - u)"

definition Add :: "time \<Rightarrow> Duration \<Rightarrow> time" where
  "Add t d = t + d"

definition Since :: "time \<Rightarrow> time \<Rightarrow> Duration" where
  "Since now t = Sub now t"

text \<open>
  Every call of \<open>time.Now()\<close> reads the clock again. A handler receives the
  readings of one run as a function: \<open>clk k\<close> is what the \<open>k\<close>-th call of
  \<open>time.Now()\<close> (counted from 0) returns while the handler runs.
\<close>

type_synonym clock = "nat \<Rightarrow> time"

section \<open>Messages, commands and the text input\<close>

datatype itemStatus = NotStarted | Started | Done

text \<open>
  \<open>KeyMsg k\<close> carries \<open>msg.String()\<close>: the character typed, or the name of a
  special key (\<open>enter\<close>, \<open>esc\<close>, \<open>up\<close>, \<open>down\<close>, \<open>backspace\<close>,
  \<open>ctrl+c\<close>). \<open>WindowSizeMsg h\<close> carries the height.
\<close>

datatype msg = WindowSizeMsg int | KeyMsg string | tickMsg | OtherMsg

datatype cmd = CmdNil | Quit | Tick | InputCmd

datatype panic = IndexOutOfRange

text \<open>
  The text input is a component of the bubbles library. Of its state the
  handlers read only the value; a typed character is added at the end,
  backspace removes the last one, and any other message leaves the value as
  it is.
\<close>

definition textinput_Update :: "msg \<Rightarrow> string \<Rightarrow> string" where
  "textinput_Update ms v =
     (case ms of
        KeyMsg k \<Rightarrow> (if length k = 1 then v @ k
                     else if k = ''backspace'' then butlast v
                     else v)
      | _ \<Rightarrow> v)"

definition isSpace :: "char \<Rightarrow> bool" where
  "isSpace c = (c = CHR '' '' \<or> c = CHR 0x09 \<or> c = CHR 0x0A \<or> c = CHR 0x0B
                \<or> c = CHR 0x0C \<or> c = CHR 0x0D)"

definition TrimSpace :: "string \<Rightarrow> string" where
  "TrimSpace s = rev (dropWhile isSpace (rev (dropWhile isSpace s)))"

text \<open>The commands typed into the input: a backslash and a letter.\<close>

definition cmd_q :: string where "cmd_q = [CHR 0x5C, CHR ''q'']"
definition cmd_p :: string where "cmd_p = [CHR 0x5C, CHR ''p'']"
definition cmd_r :: string where "cmd_r = [CHR 0x5C, CHR ''r'']"
definition cmd_d :: string where "cmd_d = [CHR 0x5C, CHR ''d'']"

section \<open>The single-list checklist with pause and restart\<close>

text \<open>
  The version of the program with one list of items, a global pause
  (\<open>\p\<close>) and a restart (\<open>\r\<close>). Its writes to the database are never
  read back by the handler, which loads the items once at start; the state
  below is the in-memory model the handler transforms.
\<close>

record item =
  item_text :: string
  status :: itemStatus
  createdAt :: time
  checkedAt :: "time option"
  frozenDuration :: Duration

record model =
  items :: "item list"
  cursor :: int
  input :: string
  viewportHeight :: int
  paused :: bool
  pausedAt :: time

text \<open>The body of the switch on the status of the item under the cursor.\<close>

definition toggle :: "bool \<Rightarrow> clock \<Rightarrow> item \<Rightarrow> item" where
  "toggle p clk i =
     (case status i of
        NotStarted \<Rightarrow>
          i\<lparr>status := Started,
            createdAt := (if frozenDuration i > 0 then Add (clk 0) (- frozenDuration i)
                          else clk 0),
            checkedAt := None\<rparr>
      | Started \<Rightarrow>
          (let c = (if p then Add (createdAt i) (frozenDuration i) else clk 0)
           in i\<lparr>checkedAt := Some c,
                frozenDuration := Sub c (createdAt i),
                status := Done\<rparr>)
      | Done \<Rightarrow> i\<lparr>status := NotStarted\<rparr>)"

text \<open>
  The pause loop: every started item takes its own reading of the clock,
  through \<open>time.Since\<close>; \<open>k\<close> is the number of the next reading.
\<close>

fun pause_sweep :: "clock \<Rightarrow> nat \<Rightarrow> item list \<Rightarrow> item list" where
  "pause_sweep clk k [] = []"
| "pause_sweep clk k (i # is) =
     (if status i = Started
      then i\<lparr>frozenDuration := Since (clk k) (createdAt i)\<rparr> # pause_sweep clk (Suc k) is
      else i # pause_sweep clk k is)"

definition resume_sweep :: "Duration \<Rightarrow> item list \<Rightarrow> item list" where
  "resume_sweep elapsedPaused is =
     map (\<lambda>i. if status i = Started
               then i\<lparr>createdAt := Add (createdAt i) elapsedPaused\<rparr>
               else i) is"

definition pause_resume :: "model \<Rightarrow> clock \<Rightarrow> model" where
  "pause_resume m clk =
     (let now = clk 0 in
      if \<not> paused m
      then m\<lparr>paused := True, pausedAt := now, items := pause_sweep clk 1 (items m)\<rparr>
      else m\<lparr>items := resume_sweep (Sub now (pausedAt m)) (items m), paused := False\<rparr>)"

definition restart :: "model \<Rightarrow> clock \<Rightarrow> model" where
  "restart m clk =
     (if cursor m \<ge> 0 \<and> cursor m < int (length (items m))
      then m\<lparr>items := (items m)[nat (cursor m) :=
                ((items m) ! nat (cursor m))\<lparr>createdAt := clk 0,
                                              frozenDuration := 0,
                                              checkedAt := None\<rparr>]\<rparr>
      else m)"

definition add_item :: "model \<Rightarrow> clock \<Rightarrow> string \<Rightarrow> model" where
  "add_item m clk inp =
     (if inp \<noteq> []
      then m\<lparr>items := items m @ [\<lparr>item_text = inp, status = NotStarted,
                                   createdAt = clk 0, checkedAt = None,
                                   frozenDuration = 0\<rparr>]\<rparr>
      else m)"

text \<open>What every unhandled message ends with: the text input sees it.\<close>

definition forward :: "model \<Rightarrow> msg \<Rightarrow> panic + model \<times> cmd" where
  "forward m ms = Inr (m\<lparr>input := textinput_Update ms (input m)\<rparr>, InputCmd)"

definition Update :: "model \<Rightarrow> clock \<Rightarrow> msg \<Rightarrow> panic + model \<times> cmd" where
  "Update m clk ms =
     (case ms of
        WindowSizeMsg h \<Rightarrow> Inr (m\<lparr>viewportHeight := h - 4\<rparr>, CmdNil)
      | tickMsg \<Rightarrow> Inr (m, Tick)
      | OtherMsg \<Rightarrow> forward m ms
      | KeyMsg k \<Rightarrow>
          (let inp = TrimSpace (input m); inputIsEmpty = (inp = []) in
           if k = ''ctrl+c'' then Inr (m, Quit)
           else if k = ''q'' then
             (if inputIsEmpty then Inr (m, Quit) else forward m ms)
           else if k = ''up'' then
             forward (if cursor m > 0 then m\<lparr>cursor := cursor m - 1\<rparr> else m) ms
           else if k = ''down'' then
             forward (if cursor m < int (length (items m)) - 1
                      then m\<lparr>cursor := cursor m + 1\<rparr> else m) ms
           else if k = ''enter'' then
             (if inp = cmd_q then Inr (m, Quit)
              else forward ((if inp = cmd_p then pause_resume m clk
                             else if inp = cmd_r then restart m clk
                             else add_item m clk inp)\<lparr>input := []\<rparr>) ms)
           else if k = '' '' then
             (if inputIsEmpty \<and> length (items m) > 0
              then (if 0 \<le> cursor m \<and> cursor m < int (length (items m))
                    then Inr (m\<lparr>items := (items m)[nat (cursor m) :=
                                 toggle (paused m) clk ((items m) ! nat (cursor m))]\<rparr>,
                              CmdNil)
                    else Inl IndexOutOfRange)
              else forward m ms)
           else forward m ms))"

text \<open>
  The duration that the view shows for an item, before it is rounded to
  seconds; \<open>now\<close> is the reading of the clock that \<open>time.Since\<close> takes.
\<close>

definition duration :: "model \<Rightarrow> time \<Rightarrow> item \<Rightarrow> Duration" where
  "duration m now it =
     (if status it = Done \<and> checkedAt it \<noteq> None then frozenDuration it
      else if status it = Started then
        (if paused m then frozenDuration it else Since now (createdAt it))
      else frozenDuration it)"

section \<open>The two-level checklist: tasks and their items\<close>

text \<open>
  The version of the program with tasks, each with its own items, kept in a
  database that the handler reads back after every insertion and deletion.
  It has the fields \<open>paused\<close> and \<open>pausedAt\<close>, and no command that writes
  them.
\<close>

record task =
  task_ID :: int
  Code :: string
  Title :: string
  task_Status :: itemStatus

record item_tl =
  ID :: int
  TaskID :: int
  Text :: string
  Status :: itemStatus
  CreatedAt :: time
  CheckedAt :: "time option"
  FrozenDuration :: Duration

text \<open>
  The database: the rows of the two tables in the order of their ids, and
  the next id of each table (ids are AUTOINCREMENT: they start at 1 and are
  never given twice). Every statement is taken to succeed; the program
  ignores their errors. A timestamp column holds a text in the format
  RFC3339, which has whole seconds: \<open>rfc3339 t\<close> is the instant that
  parsing the text of \<open>t\<close> gives back.
\<close>

record database =
  db_tasks :: "task list"
  db_items :: "item_tl list"
  next_task :: int
  next_item :: int

definition rfc3339 :: "time \<Rightarrow> time" where
  "rfc3339 t = t - t mod Second"

definition loadTasks :: "database \<Rightarrow> task list" where
  "loadTasks d = db_tasks d"

definition loadItems :: "database \<Rightarrow> int \<Rightarrow> item_tl list" where
  "loadItems d taskID = filter (\<lambda>r. TaskID r = taskID) (db_items d)"

definition saveTask :: "database \<Rightarrow> string \<Rightarrow> string \<Rightarrow> database" where
  "saveTask d code title =
     d\<lparr>db_tasks := db_tasks d @ [\<lparr>task_ID = next_task d, Code = code, Title = title,
                                  task_Status = NotStarted\<rparr>],
       next_task := next_task d + 1\<rparr>"

definition deleteTask :: "database \<Rightarrow> int \<Rightarrow> database" where
  "deleteTask d taskID =
     d\<lparr>db_items := filter (\<lambda>r. TaskID r \<noteq> taskID) (db_items d),
       db_tasks := filter (\<lambda>t. task_ID t \<noteq> taskID) (db_tasks d)\<rparr>"

definition deleteItem :: "database \<Rightarrow> int \<Rightarrow> database" where
  "deleteItem d itemID = d\<lparr>db_items := filter (\<lambda>r. ID r \<noteq> itemID) (db_items d)\<rparr>"

definition saveItem :: "database \<Rightarrow> item_tl \<Rightarrow> database" where
  "saveItem d it =
     d\<lparr>db_items := db_items d @ [it\<lparr>ID := next_item d,
                                     CreatedAt := rfc3339 (CreatedAt it),
                                     CheckedAt := map_option rfc3339 (CheckedAt it)\<rparr>],
       next_item := next_item d + 1\<rparr>"

text \<open>The status that \<open>updateTaskStatus\<close> computes from its three counts.\<close>

definition newStatus :: "nat \<Rightarrow> nat \<Rightarrow> nat \<Rightarrow> itemStatus" where
  "newStatus n_total n_done n_started =
     (if n_done = n_total \<and> n_total > 0 then Done
      else if n_started > 0 \<or> n_done > 0 then Started
      else NotStarted)"

definition updateTaskStatus :: "database \<Rightarrow> int \<Rightarrow> database" where
  "updateTaskStatus d taskID =
     (let n_total = length (filter (\<lambda>r. TaskID r = taskID) (db_items d));
          n_done = length (filter (\<lambda>r. TaskID r = taskID \<and> Status r = Done) (db_items d));
          n_started = length (filter (\<lambda>r. TaskID r = taskID \<and> Status r = Started) (db_items d))
      in d\<lparr>db_tasks := map (\<lambda>t. if task_ID t = taskID
                                  then t\<lparr>task_Status := newStatus n_total n_done n_started\<rparr>
                                  else t) (db_tasks d)\<rparr>)"

text \<open>The UPDATE of one row of the items table, after a toggle.\<close>

definition updateItemRow :: "database \<Rightarrow> item_tl \<Rightarrow> database" where
  "updateItemRow d i =
     d\<lparr>db_items := map (\<lambda>r. if ID r = ID i
                             then r\<lparr>Status := Status i,
                                    CreatedAt := rfc3339 (CreatedAt i),
                                    CheckedAt := map_option rfc3339 (CheckedAt i),
                                    FrozenDuration := FrozenDuration i\<rparr>
                             else r) (db_items d)\<rparr>"

record model_tl =
  tasks :: "task list"
  selectedTaskID :: int
  items_tl :: "item_tl list"
  cursor_tl :: int
  input_tl :: string
  viewportHeight_tl :: int
  paused_tl :: bool
  pausedAt_tl :: time
  db :: database

text \<open>\<open>fmt.Sprintf("T%02d", n)\<close>: the decimal digits of \<open>n\<close>, two at least.\<close>

fun decimal :: "nat \<Rightarrow> string" where
  "decimal n = (if n < 10 then [char_of (48 + n)]
                else decimal (n div 10) @ [char_of (48 + n mod 10)])"

definition taskCode :: "nat \<Rightarrow> string" where
  "taskCode n = CHR ''T'' # (if n < 10 then CHR ''0'' # decimal n else decimal n)"

definition toggle_tl :: "clock \<Rightarrow> item_tl \<Rightarrow> item_tl" where
  "toggle_tl clk i =
     (case Status i of
        NotStarted \<Rightarrow> i\<lparr>Status := Started, CreatedAt := clk 0\<rparr>
      | Started \<Rightarrow> i\<lparr>Status := Done, CheckedAt := Some (clk 0),
                      FrozenDuration := Sub (clk 0) (CreatedAt i)\<rparr>
      | Done \<Rightarrow> i\<lparr>Status := NotStarted\<rparr>)"

definition forward_tl :: "model_tl \<Rightarrow> msg \<Rightarrow> panic + model_tl \<times> cmd" where
  "forward_tl m ms = Inr (m\<lparr>input_tl := textinput_Update ms (input_tl m)\<rparr>, InputCmd)"

text \<open>The first part of the key handler: the command \<open>\d\<close> in the input.\<close>

definition delete_task_cmd :: "model_tl \<Rightarrow> panic + model_tl \<times> cmd" where
  "delete_task_cmd m =
     (if 0 \<le> cursor_tl m \<and> cursor_tl m < int (length (tasks m))
      then (let taskID = task_ID (tasks m ! nat (cursor_tl m));
                d = deleteTask (db m) taskID
            in Inr (m\<lparr>db := d, tasks := loadTasks d,
                      cursor_tl := (if cursor_tl m > 0 then cursor_tl m - 1 else cursor_tl m),
                      input_tl := []\<rparr>, CmdNil))
      else Inl IndexOutOfRange)"

definition delete_item_cmd :: "model_tl \<Rightarrow> panic + model_tl \<times> cmd" where
  "delete_item_cmd m =
     (if 0 \<le> cursor_tl m \<and> cursor_tl m < int (length (items_tl m))
      then (let itemID = ID (items_tl m ! nat (cursor_tl m));
                d = deleteItem (db m) itemID
            in Inr (m\<lparr>db := updateTaskStatus d (selectedTaskID m),
                      items_tl := loadItems d (selectedTaskID m),
                      cursor_tl := (if cursor_tl m > 0 then cursor_tl m - 1 else cursor_tl m),
                      input_tl := []\<rparr>, CmdNil))
      else Inl IndexOutOfRange)"

text \<open>The case \<open>enter\<close>: select a task, add a task, or add an item.\<close>

definition enter_tl :: "model_tl \<Rightarrow> clock \<Rightarrow> string \<Rightarrow> panic + model_tl" where
  "enter_tl m clk inp =
     (if selectedTaskID m = 0 then
        (if length (tasks m) > 0 \<and> inp = [] then
           (if 0 \<le> cursor_tl m \<and> cursor_tl m < int (length (tasks m))
            then (let tid = task_ID (tasks m ! nat (cursor_tl m))
                  in Inr (m\<lparr>selectedTaskID := tid, items_tl := loadItems (db m) tid,
                            input_tl := [], cursor_tl := 0\<rparr>))
            else Inl IndexOutOfRange)
         else if inp \<noteq> [] then
           (let d = saveTask (db m) (taskCode (length (tasks m) + 1)) inp
            in Inr (m\<lparr>db := d, tasks := loadTasks d, input_tl := []\<rparr>))
         else Inr m)
      else
        (if inp \<noteq> [] then
           (let it = \<lparr>ID = 0, TaskID = selectedTaskID m, Text = inp, Status = NotStarted,
                      CreatedAt = clk 0, CheckedAt = None, FrozenDuration = 0\<rparr>;
                d = saveItem (db m) it
            in Inr (m\<lparr>db := updateTaskStatus d (selectedTaskID m),
                      items_tl := loadItems d (selectedTaskID m),
                      input_tl := []\<rparr>))
         else Inr m))"

definition esc_tl :: "model_tl \<Rightarrow> model_tl" where
  "esc_tl m = m\<lparr>selectedTaskID := 0, items_tl := [], input_tl := [],
                tasks := loadTasks (db m)\<rparr>"

definition down_tl :: "model_tl \<Rightarrow> model_tl" where
  "down_tl m =
     (if selectedTaskID m = 0 \<and> cursor_tl m < int (length (tasks m)) - 1
      then m\<lparr>cursor_tl := cursor_tl m + 1\<rparr>
      else if selectedTaskID m \<noteq> 0 \<and> cursor_tl m < int (length (items_tl m)) - 1
      then m\<lparr>cursor_tl := cursor_tl m + 1\<rparr>
      else m)"

text \<open>The case of the space key: toggle the item under the cursor.\<close>

definition space_tl :: "model_tl \<Rightarrow> clock \<Rightarrow> panic + model_tl" where
  "space_tl m clk =
     (if selectedTaskID m \<noteq> 0 \<and> length (items_tl m) > 0 then
        (if 0 \<le> cursor_tl m \<and> cursor_tl m < int (length (items_tl m))
         then (let i = toggle_tl clk (items_tl m ! nat (cursor_tl m))
               in Inr (m\<lparr>items_tl := (items_tl m)[nat (cursor_tl m) := i],
                         db := updateTaskStatus (updateItemRow (db m) i) (selectedTaskID m)\<rparr>))
         else Inl IndexOutOfRange)
      else Inr m)"

definition then_forward :: "panic + model_tl \<Rightarrow> msg \<Rightarrow> panic + model_tl \<times> cmd" where
  "then_forward r ms = (case r of Inl e \<Rightarrow> Inl e | Inr m \<Rightarrow> forward_tl m ms)"

definition keys_tl :: "model_tl \<Rightarrow> clock \<Rightarrow> string \<Rightarrow> string \<Rightarrow> panic + model_tl \<times> cmd" where
  "keys_tl m clk inp k =
     (if k = ''ctrl+c'' then Inr (m, Quit)
      else if k = ''enter'' then then_forward (enter_tl m clk inp) (KeyMsg k)
      else if k = ''esc'' then forward_tl (esc_tl m) (KeyMsg k)
      else if k = ''up'' then
        forward_tl (if cursor_tl m > 0 then m\<lparr>cursor_tl := cursor_tl m - 1\<rparr> else m) (KeyMsg k)
      else if k = ''down'' then forward_tl (down_tl m) (KeyMsg k)
      else if k = '' '' then then_forward (space_tl m clk) (KeyMsg k)
      else forward_tl m (KeyMsg k))"

definition Update_tl :: "model_tl \<Rightarrow> clock \<Rightarrow> msg \<Rightarrow> panic + model_tl \<times> cmd" where
  "Update_tl m clk ms =
     (case ms of
        WindowSizeMsg h \<Rightarrow> Inr (m\<lparr>viewportHeight_tl := h - 4\<rparr>, CmdNil)
      | KeyMsg k \<Rightarrow>
          (let inp = TrimSpace (input_tl m) in
           if inp = cmd_q then Inr (m, Quit)
           else if inp = cmd_d \<and> selectedTaskID m = 0 \<and> length (tasks m) > 0
           then delete_task_cmd m
           else if inp = cmd_d \<and> selectedTaskID m \<noteq> 0 \<and> length (items_tl m) > 0
           then delete_item_cmd m
           else keys_tl m clk inp k)
      | _ \<Rightarrow> forward_tl m ms)"

text \<open>
  \<open>initialModel\<close>: the tasks of the database, no task selected, the cursor
  on the first line, nothing typed, not paused.
\<close>

definition initialModel :: "database \<Rightarrow> model_tl" where
  "initialModel d =
     \<lparr>tasks = loadTasks d, selectedTaskID = 0, items_tl = [], cursor_tl = 0,
      input_tl = [], viewportHeight_tl = 0, paused_tl = False, pausedAt_tl = 0, db = d\<rparr>"

text \<open>
  A run of the handler over a list of messages, each with the readings of
  the clock during its handling. A panic ends the run.
\<close>

fun run_tl :: "model_tl \<Rightarrow> (clock \<times> msg) list \<Rightarrow> panic + model_tl" where
  "run_tl m [] = Inr m"
| "run_tl m ((clk, ms) # rest) =
     (case Update_tl m clk ms of
        Inl e \<Rightarrow> Inl e
      | Inr (m', c) \<Rightarrow> run_tl m' rest)"

fun run :: "model \<Rightarrow> (clock \<times> msg) list \<Rightarrow> panic + model" where
  "run m [] = Inr m"
| "run m ((clk, ms) # rest) =
     (case Update m clk ms of
        Inl e \<Rightarrow> Inl e
      | Inr (m', c) \<Rightarrow> run m' rest)"

section \<open>Small concrete states\<close>

text \<open>
  A single-list model with one item under the cursor, and a two-level model
  whose task 1 is selected and holds one item; times are in nanoseconds.
\<close>

definition one_item :: "itemStatus \<Rightarrow> time \<Rightarrow> time option \<Rightarrow> Duration \<Rightarrow> item" where
  "one_item s c ch f =
     \<lparr>item_text = ''milk'', status = s, createdAt = c, checkedAt = ch, frozenDuration = f\<rparr>"

definition one_model :: "item \<Rightarrow> bool \<Rightarrow> time \<Rightarrow> model" where
  "one_model i p pa =
     \<lparr>items = [i], cursor = 0, input = [], viewportHeight = 0, paused = p, pausedAt = pa\<rparr>"

definition one_row :: "itemStatus \<Rightarrow> time \<Rightarrow> time option \<Rightarrow> Duration \<Rightarrow> item_tl" where
  "one_row s c ch f =
     \<lparr>ID = 1, TaskID = 1, Text = ''milk'', Status = s, CreatedAt = c, CheckedAt = ch,
      FrozenDuration = f\<rparr>"

definition one_database :: "item_tl list \<Rightarrow> database" where
  "one_database rows =
     \<lparr>db_tasks = [\<lparr>task_ID = 1, Code = ''T01'', Title = ''shop'', task_Status = NotStarted\<rparr>],
      db_items = rows, next_task = 2, next_item = int (length rows) + 1\<rparr>"

definition one_model_tl :: "item_tl list \<Rightarrow> model_tl" where
  "one_model_tl rows =
     (initialModel (one_database rows))\<lparr>selectedTaskID := 1, items_tl := rows\<rparr>"

definition clock_from :: "time \<Rightarrow> clock" where
  "clock_from t k = t + int k"

text \<open>The items that a call of the handler leaves, if it does not panic.\<close>

definition result_items :: "panic + model \<times> cmd \<Rightarrow> item list option" where
  "result_items r = (case r of Inl e \<Rightarrow> None | Inr (m, c) \<Rightarrow> Some (items m))"

definition result_items_tl :: "panic + model_tl \<times> cmd \<Rightarrow> item_tl list option" where
  "result_items_tl r = (case r of Inl e \<Rightarrow> None | Inr (m, c) \<Rightarrow> Some (items_tl m))"

text \<open>
  The aggregation rule in the words of the specification, over the multiset
  of the statuses of a task's items: with total the number of items, done the
  number of Done and started the number of Started, the status is Done if
  total > 0 and done = total, else Started if started > 0 or done > 0, else
  NotStarted. It is compared with what \<open>updateTaskStatus\<close> writes.
\<close>

definition spec_aggregate :: "itemStatus multiset \<Rightarrow> itemStatus" where
  "spec_aggregate M =
     (if size M > 0 \<and> count M Done = size M then Done
      else if count M Started > 0 \<or> count M Done > 0 then Started
      else NotStarted)"

section \<open>Properties\<close>

lemma Sub_exact:
  "minDuration \<le> t - u \<Longrightarrow> t - u \<le> maxDuration \<Longrightarrow> Sub t u = t - u"
  by (simp add: Sub_def)

lemma Update_space:
  "TrimSpace (input m) = [] \<Longrightarrow> 0 \<le> cursor m \<Longrightarrow> cursor m < int (length (items m)) \<Longrightarrow>
   Update m clk (KeyMsg '' '') =
     Inr (m\<lparr>items := (items m)[nat (cursor m) :=
                 toggle (paused m) clk (items m ! nat (cursor m))]\<rparr>, CmdNil)"
  by (auto simp: Update_def)

lemma Update_tl_space:
  "TrimSpace (input_tl m) \<noteq> cmd_q \<Longrightarrow> TrimSpace (input_tl m) \<noteq> cmd_d \<Longrightarrow>
   selectedTaskID m \<noteq> 0 \<Longrightarrow> 0 \<le> cursor_tl m \<Longrightarrow> cursor_tl m < int (length (items_tl m)) \<Longrightarrow>
   Update_tl m clk (KeyMsg '' '') =
     Inr (m\<lparr>items_tl := (items_tl m)[nat (cursor_tl m) :=
                 toggle_tl clk (items_tl m ! nat (cursor_tl m))],
            db := updateTaskStatus
                    (updateItemRow (db m) (toggle_tl clk (items_tl m ! nat (cursor_tl m))))
                    (selectedTaskID m),
            input_tl := textinput_Update (KeyMsg '' '') (input_tl m)\<rparr>, InputCmd)"
  by (auto simp: Update_tl_def keys_tl_def space_tl_def then_forward_def forward_tl_def Let_def)

lemmas example_defs =
  one_item_def one_model_def one_row_def one_database_def one_model_tl_def initialModel_def
  clock_from_def TrimSpace_def isSpace_def cmd_q_def cmd_d_def cmd_p_def cmd_r_def

subsection \<open>C7: a toggle on a done item\<close>

text \<open>
  C7. For every item with status Done, the toggle command changes only the
  status field, setting it to NotStarted; createdAt, frozenDuration and
  checkedAt keep their values. In the single-list program the toggle is the
  space key with an empty input; in the two-level program it is the space
  key in an item view, with neither \<open>\q\<close> nor \<open>\d\<close> in the input. In both the
  item under the cursor is replaced by itself with the new status, and no
  other item changes.
\<close>

theorem toggle_Done_changes_only_status:
  "(TrimSpace (input m) = [] \<and> 0 \<le> cursor m \<and> cursor m < int (length (items m)) \<and>
    status (items m ! nat (cursor m)) = Done \<longrightarrow>
    Update m clk (KeyMsg '' '') =
      Inr (m\<lparr>items := (items m)[nat (cursor m) :=
                  (items m ! nat (cursor m))\<lparr>status := NotStarted\<rparr>]\<rparr>, CmdNil))
   \<and>
   (TrimSpace (input_tl n) \<noteq> cmd_q \<and> TrimSpace (input_tl n) \<noteq> cmd_d \<and>
    selectedTaskID n \<noteq> 0 \<and> 0 \<le> cursor_tl n \<and> cursor_tl n < int (length (items_tl n)) \<and>
    Status (items_tl n ! nat (cursor_tl n)) = Done \<longrightarrow>
    (\<exists>n'. Update_tl n clk' (KeyMsg '' '') = Inr (n', InputCmd) \<and>
      items_tl n' = (items_tl n)[nat (cursor_tl n) :=
                      (items_tl n ! nat (cursor_tl n))\<lparr>Status := NotStarted\<rparr>]))"
  by (simp add: Update_space Update_tl_space toggle_def toggle_tl_def)

theorem toggle_Done_changes_only_status_witness:
  "Update (one_model (one_item Done 100 (Some 160) 60) False 0) (clock_from 200) (KeyMsg '' '') =
     Inr (one_model (one_item NotStarted 100 (Some 160) 60) False 0, CmdNil)
   \<and> (\<exists>n'. Update_tl (one_model_tl [one_row Done 100 (Some 160) 60]) (clock_from 200)
               (KeyMsg '' '') = Inr (n', InputCmd)
         \<and> items_tl n' = [one_row NotStarted 100 (Some 160) 60])"
  using toggle_Done_changes_only_status
          [of "one_model (one_item Done 100 (Some 160) 60) False 0" "clock_from 200"
              "one_model_tl [one_row Done 100 (Some 160) 60]" "clock_from 200"]
  by (simp add: example_defs)

lemma Update_enter:
  "TrimSpace (input m) \<noteq> cmd_q \<Longrightarrow>
   Update m clk (KeyMsg ''enter'') =
     Inr ((if TrimSpace (input m) = cmd_p then pause_resume m clk
           else if TrimSpace (input m) = cmd_r then restart m clk
           else add_item m clk (TrimSpace (input m)))\<lparr>input := []\<rparr>, InputCmd)"
  by (simp add: Update_def forward_def textinput_Update_def Let_def)

text \<open>No message makes the two-level handler write its pause flag.\<close>

lemma Update_tl_paused:
  "Update_tl n clk ms = Inr (n', c) \<Longrightarrow> paused_tl n' = paused_tl n"
  by (auto simp: Update_tl_def keys_tl_def space_tl_def then_forward_def forward_tl_def Let_def
        delete_task_cmd_def delete_item_cmd_def enter_tl_def esc_tl_def down_tl_def
      split: msg.splits if_splits sum.splits)

lemma run_tl_paused:
  "run_tl n tr = Inr n' \<Longrightarrow> paused_tl n' = paused_tl n"
proof (induction tr arbitrary: n)
  case Nil
  then show ?case by simp
next
  case (Cons a tr)
  obtain clk ms where a: "a = (clk, ms)" by (cases a)
  from Cons.prems a obtain n1 c where
    step: "Update_tl n clk ms = Inr (n1, c)" and rest: "run_tl n1 tr = Inr n'"
    by (auto split: sum.splits)
  from Cons.IH [OF rest] Update_tl_paused [OF step] show ?case by simp
qed

subsection \<open>C1: a toggle on a started item\<close>

text \<open>
  C1. For every item with status Started, the toggle command makes it Done:
  if the global pause flag is set, checkedAt becomes createdAt +
  frozenDuration (the snapshot of the pause); otherwise checkedAt becomes the
  instant now; then frozenDuration becomes checkedAt - createdAt and the
  status Done, so that frozenDuration = checkedAt - createdAt holds
  afterwards on every path. The difference is the one the program takes
  (\<open>Sub\<close>), which is the difference of the two instants whenever that fits a
  Duration. The two-level handler never sets its pause flag
  (\<open>run_tl_paused\<close>), and stops the item at now.
\<close>

theorem toggle_Started_sets_Done:
  "(TrimSpace (input m) = [] \<and> 0 \<le> cursor m \<and> cursor m < int (length (items m)) \<and>
    status (items m ! nat (cursor m)) = Started \<longrightarrow>
    (\<exists>m' c. Update m clk (KeyMsg '' '') = Inr (m', CmdNil) \<and>
       c = (if paused m then Add (createdAt (items m ! nat (cursor m)))
                                 (frozenDuration (items m ! nat (cursor m)))
            else clk 0) \<and>
       items m' = (items m)[nat (cursor m) :=
                     (items m ! nat (cursor m))\<lparr>checkedAt := Some c,
                        frozenDuration := Sub c (createdAt (items m ! nat (cursor m))),
                        status := Done\<rparr>] \<and>
       status (items m' ! nat (cursor m)) = Done \<and>
       checkedAt (items m' ! nat (cursor m)) = Some c \<and>
       frozenDuration (items m' ! nat (cursor m)) = Sub c (createdAt (items m' ! nat (cursor m))) \<and>
       (minDuration \<le> c - createdAt (items m' ! nat (cursor m)) \<and>
        c - createdAt (items m' ! nat (cursor m)) \<le> maxDuration \<longrightarrow>
        frozenDuration (items m' ! nat (cursor m)) = c - createdAt (items m' ! nat (cursor m)))))
   \<and>
   (TrimSpace (input_tl n) \<noteq> cmd_q \<and> TrimSpace (input_tl n) \<noteq> cmd_d \<and>
    selectedTaskID n \<noteq> 0 \<and> 0 \<le> cursor_tl n \<and> cursor_tl n < int (length (items_tl n)) \<and>
    Status (items_tl n ! nat (cursor_tl n)) = Started \<and> \<not> paused_tl n \<longrightarrow>
    (\<exists>n'. Update_tl n clk' (KeyMsg '' '') = Inr (n', InputCmd) \<and>
       items_tl n' = (items_tl n)[nat (cursor_tl n) :=
                       (items_tl n ! nat (cursor_tl n))\<lparr>Status := Done,
                          CheckedAt := Some (clk' 0),
                          FrozenDuration :=
                            Sub (clk' 0) (CreatedAt (items_tl n ! nat (cursor_tl n)))\<rparr>] \<and>
       Status (items_tl n' ! nat (cursor_tl n)) = Done \<and>
       CheckedAt (items_tl n' ! nat (cursor_tl n)) = Some (clk' 0) \<and>
       FrozenDuration (items_tl n' ! nat (cursor_tl n)) =
         Sub (clk' 0) (CreatedAt (items_tl n' ! nat (cursor_tl n)))))"
  by (simp add: Update_space Update_tl_space toggle_def toggle_tl_def Let_def Sub_exact
        nat_less_iff)

theorem toggle_Started_sets_Done_witness:
  "(\<exists>m'. Update (one_model (one_item Started 100 None 30) True 130) (clock_from 200)
            (KeyMsg '' '') = Inr (m', CmdNil)
         \<and> items m' = [one_item Done 100 (Some 130) 30])
   \<and> (\<exists>n'. Update_tl (one_model_tl [one_row Started 100 None 0]) (clock_from 200)
               (KeyMsg '' '') = Inr (n', InputCmd)
         \<and> items_tl n' = [one_row Done 100 (Some 200) 100])"
  using toggle_Started_sets_Done
          [of "one_model (one_item Started 100 None 30) True 130" "clock_from 200"
              "one_model_tl [one_row Started 100 None 0]" "clock_from 200"]
  by (simp add: example_defs Add_def Sub_def minDuration_def maxDuration_def) blast

subsection \<open>C2: a toggle on an item that is not started\<close>

text \<open>
  C2 as the specification states it: for every item with status NotStarted
  the toggle sets the status to Started, createdAt to now - frozenDuration
  and checkedAt to null. The single-list handler subtracts frozenDuration
  only when it is positive: an item with frozenDuration = -5, toggled at 200,
  gets createdAt = 200, not 205. The two-level handler sets createdAt to now
  and does not touch checkedAt: an item with frozenDuration = 60 and
  checkedAt = 160, toggled at 200, gets createdAt = 200 (not 140) and keeps
  checkedAt = 160.
\<close>

theorem toggle_NotStarted_counterexample:
  "result_items (Update (one_model (one_item NotStarted 100 (Some 95) (- 5)) False 0)
                   (clock_from 200) (KeyMsg '' ''))
     = Some [one_item Started 200 None (- 5)]
   \<and> createdAt (one_item Started 200 None (- 5))
       \<noteq> clock_from 200 0 - frozenDuration (one_item NotStarted 100 (Some 95) (- 5))
   \<and> result_items_tl (Update_tl (one_model_tl [one_row NotStarted 100 (Some 160) 60])
                        (clock_from 200) (KeyMsg '' ''))
     = Some [one_row Started 200 (Some 160) 60]
   \<and> CreatedAt (one_row Started 200 (Some 160) 60)
       \<noteq> clock_from 200 0 - FrozenDuration (one_row NotStarted 100 (Some 160) 60)
   \<and> CheckedAt (one_row Started 200 (Some 160) 60) \<noteq> None"
  by (simp add: example_defs result_items_def result_items_tl_def Update_space Update_tl_space
        toggle_def toggle_tl_def)

text \<open>
  C2, amended. For every item with status NotStarted the toggle sets the
  status to Started. The single-list handler also sets checkedAt to null, and
  sets createdAt to now - frozenDuration when frozenDuration is positive and
  to now otherwise, so createdAt = now - frozenDuration whenever
  frozenDuration is not negative. The two-level handler sets createdAt to now
  and leaves frozenDuration and checkedAt as they were. No other item
  changes.
\<close>

theorem toggle_NotStarted_sets_Started:
  "(TrimSpace (input m) = [] \<and> 0 \<le> cursor m \<and> cursor m < int (length (items m)) \<and>
    status (items m ! nat (cursor m)) = NotStarted \<longrightarrow>
    Update m clk (KeyMsg '' '') =
      Inr (m\<lparr>items := (items m)[nat (cursor m) :=
             (items m ! nat (cursor m))
               \<lparr>status := Started,
                createdAt := (if frozenDuration (items m ! nat (cursor m)) > 0
                              then clk 0 - frozenDuration (items m ! nat (cursor m))
                              else clk 0),
                checkedAt := None\<rparr>]\<rparr>, CmdNil)
    \<and> (0 \<le> frozenDuration (items m ! nat (cursor m)) \<longrightarrow>
         map_option (\<lambda>is. createdAt (is ! nat (cursor m)))
           (result_items (Update m clk (KeyMsg '' '')))
         = Some (clk 0 - frozenDuration (items m ! nat (cursor m)))))
   \<and>
   (TrimSpace (input_tl n) \<noteq> cmd_q \<and> TrimSpace (input_tl n) \<noteq> cmd_d \<and>
    selectedTaskID n \<noteq> 0 \<and> 0 \<le> cursor_tl n \<and> cursor_tl n < int (length (items_tl n)) \<and>
    Status (items_tl n ! nat (cursor_tl n)) = NotStarted \<longrightarrow>
    (\<exists>n'. Update_tl n clk' (KeyMsg '' '') = Inr (n', InputCmd) \<and>
       items_tl n' = (items_tl n)[nat (cursor_tl n) :=
                       (items_tl n ! nat (cursor_tl n))\<lparr>Status := Started,
                                                          CreatedAt := clk' 0\<rparr>]))"
  by (auto simp add: Update_space Update_tl_space toggle_def toggle_tl_def Add_def
        result_items_def nat_less_iff)

theorem toggle_NotStarted_sets_Started_witness:
  "Update (one_model (one_item NotStarted 100 (Some 160) 60) False 0) (clock_from 200)
     (KeyMsg '' '') = Inr (one_model (one_item Started 140 None 60) False 0, CmdNil)
   \<and> (\<exists>n'. Update_tl (one_model_tl [one_row NotStarted 100 None 0]) (clock_from 200)
               (KeyMsg '' '') = Inr (n', InputCmd)
         \<and> items_tl n' = [one_row Started 200 None 0])"
  using toggle_NotStarted_sets_Started
          [of "one_model (one_item NotStarted 100 (Some 160) 60) False 0" "clock_from 200"
              "one_model_tl [one_row NotStarted 100 None 0]" "clock_from 200"]
  by (simp add: example_defs result_items_def)

subsection \<open>C8: restart\<close>

text \<open>
  C8 as the specification states it: restart sets createdAt to now,
  frozenDuration to 0, checkedAt to null and the status to NotStarted. The
  handler of \<open>\r\<close> writes the three timing fields and never the status: a
  started item restarted at 200 is still Started.
\<close>

theorem restart_counterexample:
  "result_items (Update ((one_model (one_item Started 100 None 30) False 0)\<lparr>input := cmd_r\<rparr>)
                   (clock_from 200) (KeyMsg ''enter''))
     = Some [one_item Started 200 None 0]
   \<and> status (one_item Started 200 None 0) \<noteq> NotStarted"
  by (simp add: example_defs result_items_def Update_enter restart_def)

text \<open>
  C8, amended. For every item, whatever its status, the restart command
  (\<open>\r\<close> in the input, then enter, with the cursor on the item) sets
  createdAt to now, frozenDuration to 0 and checkedAt to null, and leaves the
  status and the text of the item, and every other item, as they were.
\<close>

theorem restart_resets_timing_keeps_status:
  "TrimSpace (input m) = cmd_r \<and> 0 \<le> cursor m \<and> cursor m < int (length (items m)) \<longrightarrow>
   Update m clk (KeyMsg ''enter'') =
     Inr (m\<lparr>items := (items m)[nat (cursor m) :=
            (items m ! nat (cursor m))\<lparr>createdAt := clk 0, frozenDuration := 0,
                                        checkedAt := None\<rparr>],
            input := []\<rparr>, InputCmd)
   \<and> map_option (\<lambda>is. status (is ! nat (cursor m)))
        (result_items (Update m clk (KeyMsg ''enter'')))
     = Some (status (items m ! nat (cursor m)))"
  by (auto simp add: Update_enter restart_def result_items_def cmd_r_def cmd_q_def cmd_p_def
        nat_less_iff)

theorem restart_resets_timing_keeps_status_witness:
  "Update ((one_model (one_item Done 100 (Some 142) 42) False 0)\<lparr>input := cmd_r\<rparr>)
     (clock_from 200) (KeyMsg ''enter'')
   = Inr (one_model (one_item Done 200 None 0) False 0, InputCmd)"
  using restart_resets_timing_keeps_status
          [of "(one_model (one_item Done 100 (Some 142) 42) False 0)\<lparr>input := cmd_r\<rparr>"
              "clock_from 200"]
  by (simp add: example_defs)

subsection \<open>C5: the status of a task\<close>

lemma count_statuses:
  "count (mset (map Status (filter (\<lambda>r. TaskID r = tid) rs))) s =
     length (filter (\<lambda>r. TaskID r = tid \<and> Status r = s) rs)"
  by (induction rs) auto

lemma count_eq_size_iff:
  "(count (mset xs) a = length xs) = (\<forall>x\<in>set xs. x = a)"
proof (induction xs)
  case Nil
  then show ?case by simp
next
  case (Cons x xs)
  have le: "count (mset xs) a \<le> length xs"
    by (metis count_le_size size_mset)
  show ?case using Cons le by auto
qed

text \<open>
  C5. The status that \<open>updateTaskStatus\<close> writes to a task is a function of
  the multiset of the statuses of the task's items, the rule of the
  specification: Done if the task has at least one item and every item is
  Done; otherwise Started if at least one item is Started or at least one is
  Done; otherwise NotStarted, as for a task with no items. The rows of the
  other tasks and the items are not changed.
\<close>

theorem updateTaskStatus_aggregates:
  "db_tasks (updateTaskStatus d tid) =
     map (\<lambda>t. if task_ID t = tid
              then t\<lparr>task_Status := spec_aggregate (mset (map Status (loadItems d tid)))\<rparr>
              else t) (db_tasks d)
   \<and> db_items (updateTaskStatus d tid) = db_items d
   \<and> spec_aggregate (mset sts) =
       (if sts \<noteq> [] \<and> (\<forall>s\<in>set sts. s = Done) then Done
        else if Started \<in> set sts \<or> Done \<in> set sts then Started
        else NotStarted)"
proof (intro conjI)
  let ?its = "filter (\<lambda>r. TaskID r = tid) (db_items d)"
  have sz: "size (mset (map Status ?its)) = length ?its"
    by (simp only: size_mset length_map)
  have "newStatus (length ?its)
          (length (filter (\<lambda>r. TaskID r = tid \<and> Status r = Done) (db_items d)))
          (length (filter (\<lambda>r. TaskID r = tid \<and> Status r = Started) (db_items d)))
        = spec_aggregate (mset (map Status ?its))"
    unfolding newStatus_def spec_aggregate_def count_statuses sz
    by (cases "?its = []") auto
  then show "db_tasks (updateTaskStatus d tid) =
     map (\<lambda>t. if task_ID t = tid
              then t\<lparr>task_Status := spec_aggregate (mset (map Status (loadItems d tid)))\<rparr>
              else t) (db_tasks d)"
    by (simp add: updateTaskStatus_def loadItems_def Let_def)
next
  show "db_items (updateTaskStatus d tid) = db_items d"
    by (simp add: updateTaskStatus_def Let_def)
next
  show "spec_aggregate (mset sts) =
       (if sts \<noteq> [] \<and> (\<forall>s\<in>set sts. s = Done) then Done
        else if Started \<in> set sts \<or> Done \<in> set sts then Started
        else NotStarted)"
    by (simp add: spec_aggregate_def count_eq_size_iff)
qed

theorem updateTaskStatus_aggregates_witness:
  "db_tasks (updateTaskStatus
       (one_database [one_row Done 100 (Some 160) 60, (one_row NotStarted 100 None 0)\<lparr>ID := 2\<rparr>]) 1)
     = [\<lparr>task_ID = 1, Code = ''T01'', Title = ''shop'', task_Status = Started\<rparr>]
   \<and> spec_aggregate (mset [Done, NotStarted]) = Started"
  using updateTaskStatus_aggregates
          [of "one_database [one_row Done 100 (Some 160) 60,
                             (one_row NotStarted 100 None 0)\<lparr>ID := 2\<rparr>]" 1
              "[Done, NotStarted]"]
  by (simp add: example_defs loadItems_def spec_aggregate_def)

text \<open>The five cases that the specification lists for the aggregation.\<close>

lemma updateTaskStatus_examples:
  "newStatus 0 0 0 = NotStarted"
  "newStatus 1 1 0 = Done"
  "newStatus 2 1 0 = Started"
  "newStatus 1 0 1 = Started"
  "newStatus 2 0 0 = NotStarted"
  by (simp_all add: newStatus_def)

end
